theory Spec2Isabelle
  imports Complex_Main
begin

section \<open>Numbers, errors and containers of the plotting classes\<close>

text \<open>
  The bin values of a histogram are numpy floating-point numbers. They are modelled as
  ideal reals together with the three special values of the floating-point format, so
  that a division by zero or the square root of a negative number yields the special
  value numpy yields (with a warning, never an exception). Rounding, overflow and the
  sign of zero are not modelled: a finite result is the exact real result, and a zero
  divisor counts as \<open>+0\<close>.
\<close>

datatype npfloat = Fin real | PInf | NInf | NaN


fun np_neg :: "npfloat \<Rightarrow> npfloat" where
  "np_neg (Fin x) = Fin (- x)"
| "np_neg PInf = NInf"
| "np_neg NInf = PInf"
| "np_neg NaN = NaN"

fun np_add :: "npfloat \<Rightarrow> npfloat \<Rightarrow> npfloat" where
  "np_add (Fin x) (Fin y) = Fin (x + y)"
| "np_add (Fin x) PInf = PInf"
| "np_add (Fin x) NInf = NInf"
| "np_add PInf (Fin y) = PInf"
| "np_add PInf PInf = PInf"
| "np_add PInf NInf = NaN"
| "np_add NInf (Fin y) = NInf"
| "np_add NInf NInf = NInf"
| "np_add NInf PInf = NaN"
| "np_add NaN b = NaN"
| "np_add a NaN = NaN"

definition np_sub :: "npfloat \<Rightarrow> npfloat \<Rightarrow> npfloat" where
  "np_sub a b = np_add a (np_neg b)"

text \<open>The infinity with the sign of a finite factor; \<open>inf * 0\<close> is NaN.\<close>

definition inf_signed :: "bool \<Rightarrow> real \<Rightarrow> npfloat" where
  "inf_signed pos y =
     (if y = 0 then NaN else if (0 < y) = pos then PInf else NInf)"

fun np_mul :: "npfloat \<Rightarrow> npfloat \<Rightarrow> npfloat" where
  "np_mul (Fin x) (Fin y) = Fin (x * y)"
| "np_mul (Fin x) PInf = inf_signed True x"
| "np_mul (Fin x) NInf = inf_signed False x"
| "np_mul PInf (Fin y) = inf_signed True y"
| "np_mul NInf (Fin y) = inf_signed False y"
| "np_mul PInf PInf = PInf"
| "np_mul PInf NInf = NInf"
| "np_mul NInf PInf = NInf"
| "np_mul NInf NInf = PInf"
| "np_mul NaN b = NaN"
| "np_mul a NaN = NaN"

fun np_div :: "npfloat \<Rightarrow> npfloat \<Rightarrow> npfloat" where
  "np_div (Fin x) (Fin y) =
     (if y \<noteq> 0 then Fin (x / y)
      else if x = 0 then NaN
      else if 0 < x then PInf else NInf)"
| "np_div (Fin x) PInf = Fin 0"
| "np_div (Fin x) NInf = Fin 0"
| "np_div PInf (Fin y) = (if 0 \<le> y then PInf else NInf)"
| "np_div NInf (Fin y) = (if 0 \<le> y then NInf else PInf)"
| "np_div PInf PInf = NaN"
| "np_div PInf NInf = NaN"
| "np_div NInf PInf = NaN"
| "np_div NInf NInf = NaN"
| "np_div NaN b = NaN"
| "np_div a NaN = NaN"

fun np_sqrt :: "npfloat \<Rightarrow> npfloat" where
  "np_sqrt (Fin x) = (if 0 \<le> x then Fin (sqrt x) else NaN)"
| "np_sqrt PInf = PInf"
| "np_sqrt NInf = NaN"
| "np_sqrt NaN = NaN"

text \<open>The exceptions of Python that the modelled methods can raise.\<close>

datatype py_error = IndexError | KeyError | StopIteration | TypeError | ValueError
  | AttributeError | ZeroDivisionError

text \<open>
  A one-dimensional histogram object as the classes read it: the name and label of its
  axis (absent or a string), the bin edges, centers and widths of that axis, and the bin
  values (\<open>h.values()\<close>).
\<close>

record hist =
  axis_name :: "string option"
  axis_label :: "string option"
  edges :: "real list"
  centers :: "real list"
  widths :: "real list"
  vals :: "npfloat list"

text \<open>
  A Python dictionary keeps its keys in insertion order; \<open>d[k] = v\<close> replaces the value
  of a key that is present, in place, and appends the pair otherwise.
\<close>

fun dict_set :: "('k \<times> 'v) list \<Rightarrow> 'k \<Rightarrow> 'v \<Rightarrow> ('k \<times> 'v) list" where
  "dict_set [] k v = [(k, v)]"
| "dict_set ((k', v') # d) k v =
     (if k' = k then (k, v) # d else (k', v') # dict_set d k v)"

definition dict_keys :: "('k \<times> 'v) list \<Rightarrow> 'k list" where
  "dict_keys d = map fst d"

definition dict_values :: "('k \<times> 'v) list \<Rightarrow> 'v list" where
  "dict_values d = map snd d"

definition dict_get :: "('k \<times> 'v) list \<Rightarrow> 'k \<Rightarrow> py_error + 'v" where
  "dict_get d k = (case map_of d k of None \<Rightarrow> Inl KeyError | Some v \<Rightarrow> Inr v)"

section \<open>Derived series\<close>

subsection \<open>\<open>RatioPlot.ratiovalues_calculator\<close> (lines 840-850)\<close>





subsection \<open>\<open>Hist1D.get_stackvalues\<close> (lines 475-487)\<close>

text \<open>
  \<open>np.sum(valueslist, axis=0)\<close>: of no array at all it is the scalar 0.0, of arrays of
  one length it is their elementwise sum, and arrays of different lengths are refused.
\<close>

datatype npvalue = Scalar npfloat | Array "npfloat list"

fun np_sum_axis0 :: "npfloat list list \<Rightarrow> py_error + npvalue" where
  "np_sum_axis0 [] = Inr (Scalar (Fin 0))"
| "np_sum_axis0 (v # vs) =
     (if list_all (\<lambda>w. length w = length v) vs
      then Inr (Array (foldl (\<lambda>s w. map2 np_add s w) v vs))
      else Inl ValueError)"

definition get_stackvalues :: "hist list \<Rightarrow> py_error + npvalue" where
  "get_stackvalues listofhist =
     (if length listofhist = 1 then Inr (Array (vals (listofhist ! 0)))
      else np_sum_axis0 (map vals listofhist))"

subsection \<open>The error band of \<open>Hist1D.histbins_errs\<close> (lines 504-512 and 528-537)\<close>

text \<open>
  Both branches of \<open>histbins_errs\<close> compute, from one value sequence, the heights and the
  bottoms of the bars handed to \<open>ax.bar\<close>; a bar spans from its bottom to its bottom
  plus its height.
\<close>

record band =
  heights :: "npfloat list"
  bottom :: "npfloat list"

definition errs_band :: "bool \<Rightarrow> npfloat list \<Rightarrow> band" where
  "errs_band ratio_mode values =
     (let poisson = map np_sqrt values in
      if ratio_mode then
        \<lparr> heights = map2 (\<lambda>p v. np_mul (Fin 2) (np_sub (np_div (np_add p v) v) (Fin 1)))
                      poisson values,
          bottom = map2 (\<lambda>p v. np_sub (Fin 1) (np_sub (np_div (np_add p v) v) (Fin 1)))
                     poisson values \<rparr>
      else
        \<lparr> heights = map (\<lambda>p. np_mul (Fin 2) p) poisson,
          bottom = map2 (\<lambda>v p. np_sub v p) values poisson \<rparr>)"


section \<open>The sample store of \<open>Hist1D\<close>\<close>

text \<open>
  The arguments \<open>samples\<close> and \<open>data\<close> of the constructor are a string or a list; a list
  may hold strings and objects that are no strings. Arguments of any other type are
  outside the model.
\<close>

datatype pyval = PStr string | PObj

datatype pyarg = Str string | List "pyval list"

text \<open>Truth value and \<open>len\<close> of such an argument.\<close>

fun truthy :: "pyarg \<Rightarrow> bool" where
  "truthy (Str s) = (s \<noteq> [])"
| "truthy (List l) = (l \<noteq> [])"

fun py_len :: "pyarg \<Rightarrow> nat" where
  "py_len (Str s) = length s"
| "py_len (List l) = length l"

text \<open>
  \<open>x in c\<close> for a string \<open>x\<close>: in a string it is the substring test, in a list it is
  membership.
\<close>

fun is_substring :: "string \<Rightarrow> string \<Rightarrow> bool" where
  "is_substring x [] = (x = [])"
| "is_substring x (c # s) = (take (length x) (c # s) = x \<or> is_substring x s)"

fun py_in :: "string \<Rightarrow> pyarg \<Rightarrow> bool" where
  "py_in x (Str s) = is_substring x s"
| "py_in x (List l) = (PStr x \<in> set l)"

text \<open>The strings of a list, in order (all of its items once the list passed the type check).\<close>

fun str_items :: "pyval list \<Rightarrow> string list" where
  "str_items [] = []"
| "str_items (PStr s # l) = s # str_items l"
| "str_items (PObj # l) = str_items l"

text \<open>
  The messages handed to \<open>logging.error\<close>, in the order of the source:
  \<^item> \<open>ListElemsNotType\<close>: "All elements in list must be ... objects" (line 170);
  \<^item> \<open>ObjNotType\<close>: "Object type is not ..." (line 174);
  \<^item> \<open>InvalidGridString\<close>: "Invalid grid string argument. ..." (line 196);
  \<^item> \<open>NoVariableNamed n\<close>: "There is no variable named n in 'samples'" (line 333);
  \<^item> \<open>NotHistObject n\<close>: "The file n.pkl does not contain a hist object" (line 347);
  \<^item> \<open>NoFileNamed n\<close>: "There is no file named n.pkl containing a hist object" (line 360);
  \<^item> \<open>SampleEntryStrings\<close>: "Sample entry must be strings" (line 363);
  \<^item> \<open>EmptySamples\<close>: "Enter a non-empty list of samples to plot." (line 365);
  \<^item> \<open>FullShapeNotStack\<close>: "Cannot select a full shape if it's not a stack plot" (line 719);
  \<^item> \<open>ShapeInvalid\<close>: "'shape' must be either 'full' or 'hollow'" (line 723).
\<close>

datatype log_msg = ListElemsNotType | ObjNotType | InvalidGridString
  | NoVariableNamed string | NotHistObject string | NoFileNamed string
  | SampleEntryStrings | EmptySamples | FullShapeNotStack | ShapeInvalid

text \<open>
  What a pickle file holds: a histogram or some other object. The file system maps a
  path to the object that \<open>open\<close> and \<open>pickle.load\<close> deliver, and to \<open>None\<close> when either
  of them raises (a missing, unreadable or malformed file).
\<close>

datatype pyobj = Histogram hist | OtherObj

text \<open>
  A colour is a name or the value of a colormap at a point of the unit interval;
  an option of \<open>rcParams\<close> is a string or a number.
\<close>

datatype color = Named string | Cmap string real

datatype rcval = RcStr string | RcNum real

text \<open>
  What the methods take from outside the object: the file system and, from matplotlib,
  the keys of the global \<open>rcParams\<close> and the known marker styles.
\<close>

record env =
  fs :: "string \<Rightarrow> pyobj option"
  rc_keys :: "string set"
  marker_keys :: "string set"

text \<open>
  The attributes of a \<open>Hist1D\<close> object that the modelled methods read or write. The
  two grid attributes exist only once \<open>gridstring_converter\<close> has assigned them; the
  attributes set by \<open>store_data\<close> exist only after it has run. Titles, font sizes and
  the figure itself belong to the rendering and are left out.
\<close>

record plot =
  dir :: string
  samples :: pyarg
  data :: pyarg
  is_stack :: bool
  errors :: "string option"
  rcps :: "(string \<times> rcval) list"
  samples_dict :: "(string \<times> hist) list"
  histos_dict :: "(string \<times> hist) list"
  histos_list :: "hist list"
  data_dict :: "(string \<times> hist) list"
  plot_types :: "(string \<times> string) list"
  colors_dict :: "(string \<times> color) list"
  names :: "string list"
  labels :: "string list"
  histolabels :: "string option list"
  scatterlabels :: "string option list"
  is_obj_bh :: "bool option"
  shape :: string
  need_grid :: bool
  legend_ncols :: int
  color_order :: "string list"
  gridaxis :: "string option"
  gridline :: "string option"
  datasize :: "nat option"
  plot_edges :: "real list option"
  plot_values :: "npfloat list list option"
  errlog :: "log_msg list"

definition logging_error :: "log_msg \<Rightarrow> plot \<Rightarrow> plot" where
  "logging_error m st = st\<lparr>errlog := errlog st @ [m]\<rparr>"

subsection \<open>\<open>EmptyPlot.type_checker\<close> with type \<open>str\<close> (lines 161-176)\<close>

fun is_str :: "pyval \<Rightarrow> bool" where
  "is_str (PStr s) = True"
| "is_str PObj = False"

fun type_checker :: "plot \<Rightarrow> pyarg \<Rightarrow> bool \<times> plot" where
  "type_checker st (List l) =
     (if list_all is_str l then (True, st) else (False, logging_error ListElemsNotType st))"
| "type_checker st (Str s) = (True, st)"

subsection \<open>\<open>Hist1D.check_input\<close> (lines 319-365)\<close>

text \<open>The loop over the names of \<open>data\<close> (lines 331-333).\<close>

fun check_data_names :: "string list \<Rightarrow> plot \<Rightarrow> plot" where
  "check_data_names [] st = st"
| "check_data_names (samplename # rest) st =
     check_data_names rest
       (if \<not> py_in samplename (samples st)
        then logging_error (NoVariableNamed samplename) st else st)"

text \<open>
  One round of the loading loop (lines 339-361): the new state, and whether the loop goes
  on (\<open>False\<close> after a \<open>break\<close>).
\<close>

definition load_sample :: "env \<Rightarrow> string \<Rightarrow> plot \<Rightarrow> bool \<times> plot" where
  "load_sample e samplename st =
     (case fs e (dir st @ samplename @ ''.pkl'') of
        None \<Rightarrow> (False, logging_error (NoFileNamed samplename) st)
      | Some OtherObj \<Rightarrow> (False, logging_error (NotHistObject samplename) st)
      | Some (Histogram obj) \<Rightarrow>
          (let st1 = st\<lparr>is_obj_bh := Some True\<rparr>;
               st2 = st1\<lparr>samples_dict := dict_set (samples_dict st1) samplename obj\<rparr>
           in (True,
               if py_in samplename (data st2) \<or> data st2 = Str ''all''
               then st2\<lparr>data_dict := dict_set (data_dict st2) samplename obj,
                        plot_types := dict_set (plot_types st2) samplename ''data''\<rparr>
               else st2\<lparr>histos_dict := dict_set (histos_dict st2) samplename obj,
                        histos_list := histos_list st2 @ [obj],
                        plot_types := dict_set (plot_types st2) samplename ''histo''\<rparr>)))"

fun load_loop :: "env \<Rightarrow> string list \<Rightarrow> plot \<Rightarrow> plot" where
  "load_loop e [] st = st"
| "load_loop e (samplename # rest) st =
     (case load_sample e samplename st of
        (True, st') \<Rightarrow> load_loop e rest st'
      | (False, st') \<Rightarrow> st')"

text \<open>\<open>[x]\<close> for an object that is no list, the object itself for a list.\<close>

fun as_list :: "pyarg \<Rightarrow> pyval list" where
  "as_list (Str s) = [PStr s]"
| "as_list (List l) = l"

text \<open>
  The check of \<open>data\<close> (lines 325-333): a name that is not \<open>'all'\<close> becomes a list, and
  every name of the list that is not in \<open>samples\<close> is reported.
\<close>

definition check_data :: "plot \<Rightarrow> plot" where
  "check_data st =
     (if truthy (data st) then
        (case type_checker st (data st) of
           (True, st') \<Rightarrow>
             (if data st' \<noteq> Str ''all'' then
                (let st'' = st'\<lparr>data := List (as_list (data st'))\<rparr>
                 in check_data_names (str_items (as_list (data st''))) st'')
              else st')
         | (False, st') \<Rightarrow> st')
      else st)"

definition check_input :: "env \<Rightarrow> plot \<Rightarrow> plot" where
  "check_input e st =
     (if truthy (samples st) then
        (case type_checker st (samples st) of
           (True, st1) \<Rightarrow>
             (let st2 = check_data st1;
                  st3 = st2\<lparr>samples := List (as_list (samples st2))\<rparr>
              in load_loop e (str_items (as_list (samples st3))) st3)
         | (False, st1) \<Rightarrow> logging_error SampleEntryStrings st1)
      else logging_error EmptySamples st)"

subsection \<open>\<open>Hist1D.colorlist_gen\<close> and \<open>Hist1D.assign_colors\<close> (lines 447-458, 677-696)\<close>

text \<open>
  \<open>np.arange(2, 98, 96/n)\<close> divided by 100: the \<open>n\<close> points \<open>(2 + i * 96/n) / 100\<close>;
  the division by \<open>n = 0\<close> raises.
\<close>

definition colorlist_gen :: "nat \<Rightarrow> string \<Rightarrow> bool \<Rightarrow> py_error + color list" where
  "colorlist_gen n colormap reverse =
     (if n = 0 then Inl ZeroDivisionError
      else (let sequence = map (\<lambda>i. (2 + real i * (96 / real n)) / 100) [0..<n];
                sequence = (if reverse then rev sequence else sequence)
            in Inr (map (Cmap colormap) sequence)))"

text \<open>\<open>xs[i]\<close> for an index that is not negative.\<close>

definition py_nth :: "'a list \<Rightarrow> nat \<Rightarrow> py_error + 'a" where
  "py_nth xs i = (if i < length xs then Inr (xs ! i) else Inl IndexError)"

fun assign_colors_loop ::
  "color list option \<Rightarrow> (nat \<times> string) list \<Rightarrow> plot \<Rightarrow> py_error + plot" where
  "assign_colors_loop custom [] st = Inr st"
| "assign_colors_loop custom ((i, samplename) # rest) st =
     (case
        (if custom \<noteq> None \<and> custom \<noteq> Some [] then py_nth (the custom) i
         else if 10 < py_len (samples st) \<or> is_stack st then
           (case colorlist_gen (py_len (samples st)) ''gist_rainbow'' False of
              Inl err \<Rightarrow> Inl err
            | Inr cmaplist \<Rightarrow> py_nth cmaplist i)
         else (case py_nth (color_order st) i of
                 Inl err \<Rightarrow> Inl err
               | Inr c \<Rightarrow> Inr (Named c)))
      of Inl err \<Rightarrow> Inl err
       | Inr c \<Rightarrow>
           assign_colors_loop custom rest
             (st\<lparr>colors_dict := dict_set (colors_dict st) samplename c\<rparr>))"

definition assign_colors :: "color list option \<Rightarrow> plot \<Rightarrow> py_error + plot" where
  "assign_colors custom st =
     assign_colors_loop custom (enumerate 0 (dict_keys (samples_dict st))) st"

subsection \<open>\<open>Hist1D.store_data\<close> (lines 368-389)\<close>

text \<open>
  \<open>d[next(iter(d))]\<close>: the first value of a dictionary; \<open>next\<close> raises on an empty one.
  The size of the one axis of a histogram is its number of bins, the length of its
  values.
\<close>

fun first_value :: "('k \<times> 'v) list \<Rightarrow> py_error + 'v" where
  "first_value [] = Inl StopIteration"
| "first_value ((k, v) # d) = Inr v"

definition or_empty :: "string option \<Rightarrow> string" where
  "or_empty x = (case x of None \<Rightarrow> [] | Some s \<Rightarrow> s)"

fun store_labels :: "(string \<times> hist) list \<Rightarrow> plot \<Rightarrow> plot" where
  "store_labels [] st = st"
| "store_labels ((samplename, sample) # rest) st =
     (let name = axis_name sample;
          label = axis_label sample;
          st1 = st\<lparr>names := names st @ [or_empty name],
                   labels := labels st @ [or_empty label]\<rparr>
      in store_labels rest
           (if py_in samplename (data st1) \<or> data st1 = Str ''all''
            then st1\<lparr>scatterlabels := scatterlabels st1 @ [label]\<rparr>
            else st1\<lparr>histolabels := histolabels st1 @ [label]\<rparr>))"

definition store_data :: "plot \<Rightarrow> py_error + plot" where
  "store_data st =
     (case (if histos_dict st \<noteq> [] then first_value (histos_dict st)
            else first_value (data_dict st)) of
        Inl err \<Rightarrow> Inl err
      | Inr first_sample \<Rightarrow>
          Inr (store_labels (samples_dict st)
                 (st\<lparr>datasize := Some (length (vals first_sample)),
                     plot_edges := Some (edges first_sample),
                     plot_values := Some (map vals (dict_values (samples_dict st)))\<rparr>)))"

subsection \<open>\<open>Hist1D.__init__\<close> (lines 266-310)\<close>

text \<open>
  The constructor: the attributes as the two \<open>__init__\<close> methods set them, then
  \<open>check_input\<close>, the defaults, \<open>assign_colors\<close> and \<open>store_data\<close>. An exception of one of
  the calls leaves the constructor, and no object is built.
\<close>

definition init_rcps :: "(string \<times> rcval) list" where
  "init_rcps =
     [(''xaxis.labellocation'', RcStr ''right''),
      (''yaxis.labellocation'', RcStr ''top''),
      (''axes.labelpad'', RcNum 1),
      (''axes.titlesize'', RcNum 20),
      (''font.size'', RcNum 10),
      (''lines.linewidth'', RcNum 1),
      (''lines.marker'', RcStr ''.''),
      (''lines.markersize'', RcNum 8),
      (''legend.handletextpad'', RcNum (3 / 10)),
      (''legend.columnspacing'', RcNum (1 / 2)),
      (''legend.labelspacing'', RcNum (1 / 10)),
      (''legend.markerscale'', RcNum (11 / 10))]"

definition init_attrs :: "pyarg \<Rightarrow> pyarg \<Rightarrow> string option \<Rightarrow> bool \<Rightarrow> string \<Rightarrow> plot" where
  "init_attrs samples_arg data_arg errors_arg stack directory =
     \<lparr> dir = directory, samples = samples_arg, data = data_arg, is_stack = stack,
       errors = errors_arg, rcps = init_rcps,
       samples_dict = [], histos_dict = [], histos_list = [], data_dict = [],
       plot_types = [], colors_dict = [], names = [], labels = [],
       histolabels = [], scatterlabels = [], is_obj_bh = None,
       shape = (if stack then ''full'' else ''hollow''), need_grid = False,
       legend_ncols = 1,
       color_order = [''black'', ''red'', ''blue'', ''limegreen'', ''orangered'',
                      ''magenta'', ''yellow'', ''aqua'', ''chocolate'', ''darkviolet''],
       gridaxis = None, gridline = None,
       datasize = None, plot_edges = None, plot_values = None, errlog = [] \<rparr>"

definition Hist1D_init ::
  "env \<Rightarrow> pyarg \<Rightarrow> pyarg \<Rightarrow> string option \<Rightarrow> bool \<Rightarrow> string \<Rightarrow> py_error + plot" where
  "Hist1D_init e samples_arg data_arg errors_arg stack directory =
     (let st = check_input e (init_attrs samples_arg data_arg errors_arg stack directory)
      in case assign_colors None st of
           Inl err \<Rightarrow> Inl err
         | Inr st' \<Rightarrow> store_data st')"

subsection \<open>\<open>Hist1D.get_samples_colors\<close> and \<open>Hist1D.histbins_errs\<close> (lines 461-472, 490-550)\<close>

fun colors_of :: "(string \<times> color) list \<Rightarrow> string list \<Rightarrow> py_error + color list" where
  "colors_of cd [] = Inr []"
| "colors_of cd (samplename # rest) =
     (case dict_get cd samplename of
        Inl err \<Rightarrow> Inl err
      | Inr c \<Rightarrow> (case colors_of cd rest of
                    Inl err \<Rightarrow> Inl err
                  | Inr cs \<Rightarrow> Inr (c # cs)))"

text \<open>The second component of the result: one colour, or a list of colours.\<close>

datatype colors_ret = Single color | Several "color list"

definition get_samples_colors ::
  "plot \<Rightarrow> (string \<times> hist) list \<Rightarrow> py_error + (hist list \<times> colors_ret)" where
  "get_samples_colors st d =
     (case colors_of (colors_dict st) (dict_keys d) of
        Inl err \<Rightarrow> Inl err
      | Inr colors \<Rightarrow>
          Inr (dict_values d,
               if length colors = 1 then Single (colors ! 0) else Several colors))"

text \<open>
  One call of \<open>ax.bar\<close>: centers, heights, width and bottom, the edge colour where it is
  given, and the label.
\<close>

record bar = band +
  bar_centers :: "real list"
  bar_width :: "real list"
  edgecolor :: "color option"
  bar_label :: "string option"

definition mk_bar :: "hist \<Rightarrow> band \<Rightarrow> color option \<Rightarrow> string option \<Rightarrow> bar" where
  "mk_bar h0 b c l =
     \<lparr> heights = heights b, bottom = bottom b, bar_centers = centers h0,
       bar_width = widths h0, edgecolor = c, bar_label = l \<rparr>"

text \<open>
  The values of the stacked branch as a sequence; \<open>get_stackvalues\<close> yields a scalar
  only for no histogram at all, which the method excludes before.
\<close>

fun np_items :: "npvalue \<Rightarrow> npfloat list" where
  "np_items (Array l) = l"
| "np_items (Scalar x) = [x]"

definition histbins_errs :: "plot \<Rightarrow> bool \<Rightarrow> py_error + bar list" where
  "histbins_errs st ratio_mode =
     (case get_samples_colors st (histos_dict st) of
        Inl err \<Rightarrow> Inl err
      | Inr (histlist, cret) \<Rightarrow>
          (let clist = (case cret of Single c \<Rightarrow> [c] | Several cs \<Rightarrow> cs) in
           case histlist of
             [] \<Rightarrow> Inl IndexError
           | h0 # _ \<Rightarrow>
               if is_stack st then
                 (case get_stackvalues histlist of
                    Inl err \<Rightarrow> Inl err
                  | Inr values \<Rightarrow>
                      Inr [mk_bar h0 (errs_band ratio_mode (np_items values)) None
                             (Some ''Uncertainty'')])
               else
                 Inr (map2 (\<lambda>H c. mk_bar h0 (errs_band ratio_mode (vals H)) (Some c)
                                     (if c = Named ''black'' then Some ''Uncertainty''
                                      else None))
                        histlist clist)))"

section \<open>Plot configuration\<close>

subsection \<open>\<open>EmptyPlot.gridstring_converter\<close> (lines 179-196)\<close>

definition linestyles :: "string list" where
  "linestyles = [''-'', ''--'', ''-.'', '':'']"

definition gridstring_converter :: "string \<Rightarrow> plot \<Rightarrow> py_error + plot" where
  "gridstring_converter string st =
     (case string of
        [] \<Rightarrow> Inl IndexError
      | c # rest \<Rightarrow>
          if (c = CHR ''x'' \<or> c = CHR ''y'') \<and> rest \<in> set linestyles then
            Inr (st\<lparr>gridaxis := Some [c], gridline := Some rest\<rparr>)
          else if take 4 string = ''both'' \<and> drop 4 string \<in> set linestyles then
            Inr (st\<lparr>gridaxis := Some (take 4 string), gridline := Some (drop 4 string)\<rparr>)
          else Inr (logging_error InvalidGridString st))"

text \<open>
  The grid strings as the specification words them: an axis out of x, y and both,
  immediately followed by a line style out of the four.
\<close>

definition spec_grid_strings :: "(string \<times> string) list" where
  "spec_grid_strings =
     concat (map (\<lambda>a. map (\<lambda>l. (a, l)) [''-'', ''--'', ''-.'', '':''])
               [''x'', ''y'', ''both''])"

definition spec_grid_parts :: "string \<Rightarrow> (string \<times> string) option" where
  "spec_grid_parts s = find (\<lambda>(a, l). a @ l = s) spec_grid_strings"

definition spec_grid_accepts :: "string \<Rightarrow> bool" where
  "spec_grid_accepts s = (spec_grid_parts s \<noteq> None)"

subsection \<open>\<open>Hist1D.plot_options\<close> (lines 706-749)\<close>

text \<open>
  \<open>self.rcps.update(...)\<close> with the entries of \<open>rcp_kw\<close> whose key matplotlib knows. The
  copy of the options into matplotlib's global \<open>rcParams\<close> (\<open>config_rcParams\<close>) is an
  effect on the library and is left out.
\<close>

fun dict_update :: "('k \<times> 'v) list \<Rightarrow> ('k \<times> 'v) list \<Rightarrow> ('k \<times> 'v) list" where
  "dict_update d [] = d"
| "dict_update d ((k, v) # kvs) = dict_update (dict_set d k v) kvs"

definition plot_options ::
  "env \<Rightarrow> string option \<Rightarrow> string \<Rightarrow> string option \<Rightarrow> real option \<Rightarrow> int option
     \<Rightarrow> (string \<times> rcval) list \<Rightarrow> plot \<Rightarrow> py_error + plot" where
  "plot_options e shape_arg gridstring marker markersize legendcols rcp_kw st =
     (let st1 =
        (if shape_arg \<noteq> None \<and> shape_arg \<noteq> Some [] then
           (if shape_arg = Some ''full'' \<and> \<not> is_stack st \<and> 1 < length (histos_dict st)
            then logging_error FullShapeNotStack st
            else if shape_arg = Some ''full'' \<or> shape_arg = Some ''hollow''
            then st\<lparr>shape := the shape_arg\<rparr>
            else logging_error ShapeInvalid st)
         else st)
      in case (if gridstring \<noteq> [] then
                 (case gridstring_converter gridstring st1 of
                    Inl err \<Rightarrow> Inl err
                  | Inr st2 \<Rightarrow> Inr (st2\<lparr>need_grid := True\<rparr>))
               else Inr st1) of
           Inl err \<Rightarrow> Inl err
         | Inr st2 \<Rightarrow>
             (let st3 = st2\<lparr>rcps := dict_update (rcps st2)
                                      (filter (\<lambda>(k, v). k \<in> rc_keys e) rcp_kw)\<rparr>;
                  st4 = (if marker \<noteq> None \<and> marker \<noteq> Some []
                            \<and> the marker \<in> marker_keys e
                         then st3\<lparr>rcps := dict_set (rcps st3) ''lines.marker''
                                            (RcStr (the marker))\<rparr>
                         else st3);
                  st5 = (if markersize \<noteq> None \<and> markersize \<noteq> Some 0
                         then st4\<lparr>rcps := dict_set (rcps st4) ''lines.markersize''
                                            (RcNum (the markersize))\<rparr>
                         else st4);
                  st6 = (if legendcols \<noteq> None \<and> legendcols \<noteq> Some 0
                         then st5\<lparr>legend_ncols := the legendcols\<rparr>
                         else st5)
              in if is_stack st6 \<and> shape_arg = Some ''hollow'' \<and> py_len (samples st6) \<le> 10
                 then assign_colors (Some (map Named (color_order st6))) st6
                 else Inr st6))"

subsection \<open>The grid of \<open>Hist1D.hist_plot\<close> and \<open>RatioPlot.bot_plot\<close> (lines 641-642, 990-991)\<close>

text \<open>
  Both renderers draw the grid by the same statement: when \<open>need_grid\<close> is set they read
  \<open>self.gridaxis\<close> and \<open>self.gridline\<close> and hand them to \<open>ax.grid\<close>. Reading an attribute
  that was never assigned raises. The result is the pair handed to \<open>ax.grid\<close>, if any.
\<close>

definition draw_grid :: "plot \<Rightarrow> py_error + (string \<times> string) option" where
  "draw_grid st =
     (if need_grid st then
        (case gridaxis st of
           None \<Rightarrow> Inl AttributeError
         | Some a \<Rightarrow> (case gridline st of
                       None \<Rightarrow> Inl AttributeError
                     | Some l \<Rightarrow> Inr (Some (a, l))))
      else Inr None)"

section \<open>The y axis of the ratio panel\<close>

subsection \<open>Formatting a number with a fixed count of decimals\<close>

text \<open>
  Python's \<open>f'{x:.Nf}'\<close> on the exact value of \<open>x\<close>: the value is rounded to \<open>N\<close>
  decimals, a tie going to the even neighbour, and printed with its sign, its integer
  digits and, for \<open>N > 0\<close>, a point and exactly \<open>N\<close> decimals. Tick values are modelled
  as rationals, so the rounding of the float that stands for a decimal literal is not
  modelled.
\<close>

definition digit_char :: "nat \<Rightarrow> char" where
  "digit_char d = ''0123456789'' ! d"

fun str_nat :: "nat \<Rightarrow> string" where
  "str_nat n = (if n < 10 then [digit_char n] else str_nat (n div 10) @ [digit_char (n mod 10)])"

fun digits_n :: "nat \<Rightarrow> nat \<Rightarrow> string" where
  "digits_n 0 m = []"
| "digits_n (Suc k) m = digits_n k (m div 10) @ [digit_char (m mod 10)]"

definition round_half_even :: "rat \<Rightarrow> int" where
  "round_half_even r =
     (let f = \<lfloor>r\<rfloor>; d = r - of_int f in
      if d < 1 / 2 then f
      else if 1 / 2 < d then f + 1
      else if even f then f else f + 1)"

definition format_f :: "nat \<Rightarrow> rat \<Rightarrow> string" where
  "format_f N x =
     (let q = nat (round_half_even (\<bar>x\<bar> * 10 ^ N)) in
      (if x < 0 then ''-'' else []) @ str_nat (q div 10 ^ N) @
      (if N = 0 then [] else ''.'' @ digits_n N (q mod 10 ^ N)))"

text \<open>\<open>s.split(c)\<close> for a separator of one character.\<close>

fun py_split :: "char \<Rightarrow> string \<Rightarrow> string list" where
  "py_split c [] = [[]]"
| "py_split c (x # xs) =
     (if x = c then [] # py_split c xs
      else (case py_split c xs of
              [] \<Rightarrow> [[x]]
            | w # ws \<Rightarrow> (x # w) # ws))"

subsection \<open>\<open>RatioPlot.custom_yaxis\<close> (lines 895-938)\<close>

text \<open>
  \<open>np.arange(start, stop, step)\<close> in exact arithmetic: the values \<open>start + i * step\<close>
  for the \<open>\<lceil>(stop - start) / step\<rceil>\<close> first \<open>i\<close>; a step of 0 raises.
\<close>

definition np_arange :: "rat \<Rightarrow> rat \<Rightarrow> rat \<Rightarrow> py_error + rat list" where
  "np_arange start stop step =
     (if step = 0 then Inl ZeroDivisionError
      else Inr (map (\<lambda>i. start + of_nat i * step) [0..<nat \<lceil>(stop - start) / step\<rceil>]))"

text \<open>
  The loop over \<open>temprange[1:-1]\<close> (lines 919-928) with the flag \<open>need1\<close> carried along; its
  result is the pair of \<open>need1\<close> and \<open>need2\<close>. The \<open>break\<close> ends the loop.
\<close>

fun need_loop :: "string list \<Rightarrow> bool \<Rightarrow> py_error + (bool \<times> bool)" where
  "need_loop [] need1 = Inr (need1, False)"
| "need_loop (num # rest) need1 =
     (case py_split (CHR ''.'') num of
        _ # decimals # _ \<Rightarrow>
          (case decimals of
             d1 # d2 # _ \<Rightarrow>
               if d2 \<noteq> CHR ''0'' then Inr (need1, True)
               else if d1 \<noteq> CHR ''0'' then need_loop rest True
               else need_loop rest need1
           | _ \<Rightarrow> Inl IndexError)
      | _ \<Rightarrow> Inl IndexError)"

text \<open>Lines 915-938: from the tick values to their labels.\<close>

definition tick_labels :: "rat list \<Rightarrow> bool \<Rightarrow> py_error + string list" where
  "tick_labels ybotrange show_edges =
     (let temprange = map (format_f 2) ybotrange in
      case need_loop (butlast (tl temprange)) False of
        Inl err \<Rightarrow> Inl err
      | Inr (need1, need2) \<Rightarrow>
          (let ybotlabels =
             (if need2 then map (format_f 2) ybotrange
              else if need1 then map (format_f 1) ybotrange
              else map (format_f 0) ybotrange)
           in if \<not> show_edges then
                (if ybotlabels = [] then Inl IndexError
                 else Inr ((ybotlabels[0 := []]) [length ybotlabels - 1 := []]))
              else Inr ybotlabels))"

record yaxis =
  custom_ylims :: bool
  ylims :: "rat list"
  ystep :: rat
  ybotrange :: "rat list"
  ybotlabels :: "string list"

definition custom_yaxis :: "rat list \<Rightarrow> rat option \<Rightarrow> bool \<Rightarrow> py_error + yaxis" where
  "custom_yaxis ylims_arg step show_edges =
     (case ylims_arg of
        [] \<Rightarrow> Inl IndexError
      | y0 # _ \<Rightarrow>
          (case step of
             None \<Rightarrow> Inl TypeError
           | Some stp \<Rightarrow>
               (case np_arange y0 (last ylims_arg + stp) stp of
                  Inl err \<Rightarrow> Inl err
                | Inr rng \<Rightarrow>
                    (case tick_labels rng show_edges of
                       Inl err \<Rightarrow> Inl err
                     | Inr lbls \<Rightarrow>
                         Inr \<lparr> custom_ylims = True, ylims = ylims_arg, ystep = stp,
                               ybotrange = rng, ybotlabels = lbls \<rparr>))))"

subsection \<open>The precision rule as the specification words it\<close>

text \<open>
  A tick formatted to 2 decimals is a whole number of hundredths; its 1st and 2nd decimal
  digits are the tens and the units of that number. The precision is 2 when some tick
  other than the first and the last has a 2nd decimal digit that is not zero, else 1
  when some such tick has a 1st decimal digit that is not zero, else 0. Blanking the
  edges replaces the first and the last label by the empty string.
\<close>

definition hundredths :: "rat \<Rightarrow> nat" where
  "hundredths x = nat (round_half_even (\<bar>x\<bar> * 100))"

definition spec_decimal1 :: "rat \<Rightarrow> nat" where
  "spec_decimal1 x = (hundredths x div 10) mod 10"

definition spec_decimal2 :: "rat \<Rightarrow> nat" where
  "spec_decimal2 x = hundredths x mod 10"

definition spec_precision :: "rat list \<Rightarrow> nat" where
  "spec_precision ticks =
     (let inner = butlast (tl ticks) in
      if list_ex (\<lambda>x. spec_decimal2 x \<noteq> 0) inner then 2
      else if list_ex (\<lambda>x. spec_decimal1 x \<noteq> 0) inner then 1
      else 0)"

definition spec_blank_edges :: "string list \<Rightarrow> string list" where
  "spec_blank_edges ls = (ls[0 := []]) [length ls - 1 := []]"

section \<open>Example objects\<close>

text \<open>
  A histogram of one bin that holds the value 0, the file system that has it under
  \<open>a.pkl\<close>, and the object that the constructor builds from the sample \<open>a\<close>.
\<close>

definition zero_bin_hist :: hist where
  "zero_bin_hist =
     \<lparr> axis_name = None, axis_label = None, edges = [0, 1], centers = [1 / 2],
       widths = [1], vals = [Fin 0] \<rparr>"

definition zero_bin_env :: env where
  "zero_bin_env =
     \<lparr> fs = (\<lambda>path. if path = ''a.pkl'' then Some (Histogram zero_bin_hist) else None),
       rc_keys = {}, marker_keys = {} \<rparr>"

definition zero_bin_plot :: plot where
  "zero_bin_plot =
     (init_attrs (List [PStr ''a'']) (List []) None False [])
       \<lparr> samples_dict := [(''a'', zero_bin_hist)],
         histos_dict := [(''a'', zero_bin_hist)],
         histos_list := [zero_bin_hist],
         plot_types := [(''a'', ''histo'')],
         colors_dict := [(''a'', Named ''black'')],
         names := [[]], labels := [[]], histolabels := [None],
         is_obj_bh := Some True,
         datasize := Some 1, plot_edges := Some [0, 1], plot_values := Some [[Fin 0]] \<rparr>"

text \<open>
  A file system with a histogram under \<open>a.pkl\<close> and \<open>b.pkl\<close> and an object that is no
  histogram under \<open>c.pkl\<close>, and the object that the constructor builds from the samples
  \<open>a\<close> and \<open>b\<close> with \<open>b\<close> named as data.
\<close>

definition two_env :: env where
  "two_env =
     \<lparr> fs = (\<lambda>path. if path = ''a.pkl'' \<or> path = ''b.pkl'' then Some (Histogram zero_bin_hist)
                    else if path = ''c.pkl'' then Some OtherObj else None),
       rc_keys = {}, marker_keys = {} \<rparr>"

definition two_plot :: plot where
  "two_plot =
     (init_attrs (List [PStr ''a'', PStr ''b'']) (List [PStr ''b'']) None False [])
       \<lparr> samples_dict := [(''a'', zero_bin_hist), (''b'', zero_bin_hist)],
         histos_dict := [(''a'', zero_bin_hist)],
         histos_list := [zero_bin_hist],
         data_dict := [(''b'', zero_bin_hist)],
         plot_types := [(''a'', ''histo''), (''b'', ''data'')],
         colors_dict := [(''a'', Named ''black''), (''b'', Named ''red'')],
         names := [[], []], labels := [[], []], histolabels := [None],
         scatterlabels := [None],
         is_obj_bh := Some True,
         datasize := Some 1, plot_edges := Some [0, 1],
         plot_values := Some [[Fin 0], [Fin 0]] \<rparr>"

section \<open>The invariant of the store\<close>

text \<open>
  The three dictionaries of the store never repeat a key, the histogram role and the
  data role share the loaded names among them, and the role of a name is the one that
  \<open>data\<close> gives it.
\<close>

definition store_inv :: "plot \<Rightarrow> bool" where
  "store_inv st =
     (distinct (map fst (samples_dict st)) \<and> distinct (map fst (histos_dict st)) \<and>
      distinct (map fst (data_dict st)) \<and>
      fst ` set (histos_dict st) \<union> fst ` set (data_dict st) = fst ` set (samples_dict st) \<and>
      (\<forall>k \<in> fst ` set (histos_dict st). \<not> (py_in k (data st) \<or> data st = Str ''all'')) \<and>
      (\<forall>k \<in> fst ` set (data_dict st). py_in k (data st) \<or> data st = Str ''all''))"

section \<open>Properties of the derived series\<close>

subsection \<open>Ratio values\<close>




lemma dict_set_fresh: "k \<notin> fst ` set d \<Longrightarrow> dict_set d k v = d @ [(k, v)]"
  by (induction d) auto




subsection \<open>Stacked totals\<close>

lemma foldl_map2_length:
  "list_all (\<lambda>w. length w = length v) vs \<Longrightarrow>
   length (foldl (\<lambda>s w. map2 np_add s w) v vs) = length v"
  by (induction vs arbitrary: v) auto

lemma foldl_map2_nth:
  "list_all (\<lambda>w. length w = length v) vs \<Longrightarrow> i < length v \<Longrightarrow>
   foldl (\<lambda>s w. map2 np_add s w) v vs ! i = foldl np_add (v ! i) (map (\<lambda>w. w ! i) vs)"
proof (induction vs arbitrary: v)
  case Nil
  then show ?case by simp
next
  case (Cons w ws)
  have len: "length (map2 np_add v w) = length v" using Cons.prems by simp
  have all: "list_all (\<lambda>u. length u = length (map2 np_add v w)) ws"
    using Cons.prems len by (simp add: list_all_iff)
  show ?case
    using Cons.IH [OF all] Cons.prems len by simp
qed

text \<open>
  The total of two or more histograms of one bin count \<open>n\<close>: bin \<open>i\<close> of the result is
  the sum, from the left, of bin \<open>i\<close> of every histogram.
\<close>

lemma get_stackvalues_many:
  assumes "2 \<le> length hs" and "list_all (\<lambda>h. length (vals h) = n) hs"
  shows "\<exists>s. get_stackvalues hs = Inr (Array s) \<and> length s = n \<and>
     (\<forall>i < n. s ! i = foldl np_add (vals (hd hs) ! i) (map (\<lambda>h. vals h ! i) (tl hs)))"
proof (cases hs)
  case Nil
  then show ?thesis using assms by simp
next
  case (Cons h hs')
  have all: "list_all (\<lambda>w. length w = length (vals h)) (map vals hs')"
    using assms Cons by (simp add: list_all_iff)
  have n: "length (vals h) = n" using assms Cons by simp
  show ?thesis
    using assms Cons foldl_map2_length [OF all] foldl_map2_nth [OF all] n all
    by (simp add: get_stackvalues_def o_def)
qed

text \<open>
  C6. \<open>get_stackvalues\<close> of a single histogram returns the values of that histogram
  unchanged; of two histograms \<open>a\<close> and \<open>b\<close> of equal bin count it returns a sequence of
  that bin count whose bin \<open>i\<close> is \<open>a[i] + b[i]\<close>, for every index \<open>i\<close>.
\<close>

theorem get_stackvalues_sum:
  "get_stackvalues [a] = Inr (Array (vals a)) \<and>
   (length (vals a) = length (vals b) \<longrightarrow>
      (\<exists>s. get_stackvalues [a, b] = Inr (Array s) \<and> length s = length (vals a) \<and>
           (\<forall>i < length (vals a). s ! i = np_add (vals a ! i) (vals b ! i))))"
  by (simp add: get_stackvalues_def)

theorem get_stackvalues_sum_witness:
  "get_stackvalues [zero_bin_hist] = Inr (Array [Fin 0]) \<and>
   length (vals zero_bin_hist) = length (vals (zero_bin_hist\<lparr>vals := [Fin 5]\<rparr>)) \<and>
   get_stackvalues [zero_bin_hist, zero_bin_hist\<lparr>vals := [Fin 5]\<rparr>] = Inr (Array [Fin 5])"
  using get_stackvalues_sum [of zero_bin_hist "zero_bin_hist\<lparr>vals := [Fin 5]\<rparr>"]
  by (simp add: get_stackvalues_def zero_bin_hist_def)

subsection \<open>Error bands\<close>



text \<open>What \<open>histbins_errs\<close> hands to \<open>ax.bar\<close> and which exceptions it can raise.\<close>

lemma map2_mk_bar_band:
  "length hs = length cs \<Longrightarrow>
   map (\<lambda>b. \<lparr>heights = heights b, bottom = bottom b\<rparr>)
     (map2 (\<lambda>H c. mk_bar h0 (errs_band r (vals H)) (f c) (g c)) hs cs) =
   map (\<lambda>H. errs_band r (vals H)) hs"
  by (induction hs cs rule: list_induct2) (auto simp: mk_bar_def)

lemma colors_of_length: "colors_of cd ks = Inr cs \<Longrightarrow> length cs = length ks"
  by (induction ks arbitrary: cs) (auto split: sum.splits)



lemma histbins_errs_each:
  assumes "histbins_errs st r = Inr bars" and "\<not> is_stack st"
  shows "map (\<lambda>b. \<lparr>heights = heights b, bottom = bottom b\<rparr>) bars =
         map (\<lambda>H. errs_band r (vals H)) (dict_values (histos_dict st))"
proof -
  obtain cs where cs: "colors_of (colors_dict st) (dict_keys (histos_dict st)) = Inr cs"
    using assms(1) by (auto simp: histbins_errs_def get_samples_colors_def split: sum.splits)
  have len: "length cs = length (dict_values (histos_dict st))"
    using colors_of_length [OF cs] by (simp add: dict_keys_def dict_values_def)
  have unwrap: "(case (if length cs = 1 then Single (cs ! 0) else Several cs) of
                   Single c \<Rightarrow> [c] | Several cs \<Rightarrow> cs) = cs"
    by (cases cs; cases "tl cs") auto
  have bars: "bars = map2 (\<lambda>H c. mk_bar (hd (dict_values (histos_dict st)))
                                     (errs_band r (vals H)) (Some c)
                                     (if c = Named ''black'' then Some ''Uncertainty'' else None))
                        (dict_values (histos_dict st)) cs"
    using assms cs unwrap
    by (auto simp: histbins_errs_def get_samples_colors_def Let_def split: list.splits)
  show ?thesis
    unfolding bars
    by (rule map2_mk_bar_band [where f = Some
          and g = "\<lambda>c. if c = Named ''black'' then Some ''Uncertainty'' else None"])
       (simp add: len)
qed


lemma zero_bin_plot_init:
  "Hist1D_init zero_bin_env (Str ''a'') (List []) None False [] = Inr zero_bin_plot"
  by (simp add: Hist1D_init_def check_input_def check_data_def init_attrs_def load_sample_def
      zero_bin_env_def zero_bin_plot_def zero_bin_hist_def assign_colors_def dict_keys_def
      dict_values_def py_nth_def store_data_def or_empty_def Let_def)






section \<open>Properties of the sample store\<close>

lemma two_plot_init:
  "Hist1D_init two_env (List [PStr ''a'', PStr ''b'']) (List [PStr ''b'']) None False [] = Inr two_plot"
  by (simp add: Hist1D_init_def check_input_def check_data_def init_attrs_def load_sample_def
      two_env_def two_plot_def zero_bin_hist_def assign_colors_def dict_keys_def
      dict_values_def py_nth_def store_data_def or_empty_def Let_def logging_error_def)

lemma Hist1D_init_no_samples:
  "Hist1D_init e (List []) data_arg errors_arg stack directory = Inl StopIteration"
  "Hist1D_init e (Str []) data_arg errors_arg stack directory = Inl StopIteration"
  by (simp_all add: Hist1D_init_def check_input_def init_attrs_def assign_colors_def
      dict_keys_def store_data_def logging_error_def Let_def)

text \<open>
  C4. The code at the empty sample list: \<open>check_input\<close> reports the empty list, and
  \<open>store_data\<close> then takes the first sample of an empty dictionary, so that the
  constructor ends with \<open>StopIteration\<close> and builds no object. The same holds for the
  empty string.
\<close>

theorem init_empty_samples_raises:
  "Hist1D_init e (List []) data_arg errors_arg stack directory = Inl StopIteration \<and>
   Hist1D_init e (Str []) data_arg errors_arg stack directory = Inl StopIteration"
  by (simp add: Hist1D_init_no_samples)

lemma dict_set_keys: "fst ` set (dict_set d k v) = insert k (fst ` set d)"
proof (induction d)
  case Nil
  then show ?case by simp
next
  case (Cons p d)
  obtain k' v' where p: "p = (k', v')" by (cases p)
  show ?case using Cons.IH by (cases "k' = k") (auto simp: p)
qed

lemma dict_set_distinct: "distinct (map fst d) \<Longrightarrow> distinct (map fst (dict_set d k v))"
proof (induction d)
  case Nil
  then show ?case by simp
next
  case (Cons p d)
  obtain k' v' where p: "p = (k', v')" by (cases p)
  show ?case
    using Cons dict_set_keys [of d k v] by (cases "k' = k") (auto simp: p)
qed

lemma load_sample_frame:
  "load_sample e s st = (b, st') \<Longrightarrow>
     dir st' = dir st \<and> data st' = data st \<and> samples st' = samples st"
  by (auto simp: load_sample_def logging_error_def Let_def
      split: option.splits pyobj.splits if_splits)

lemma load_sample_fail:
  "fs e (dir st @ s @ ''.pkl'') = None \<Longrightarrow>
     load_sample e s st = (False, logging_error (NoFileNamed s) st)"
  "fs e (dir st @ s @ ''.pkl'') = Some OtherObj \<Longrightarrow>
     load_sample e s st = (False, logging_error (NotHistObject s) st)"
  by (simp_all add: load_sample_def)

lemma load_sample_good:
  "fs e (dir st @ s @ ''.pkl'') = Some (Histogram h) \<Longrightarrow> fst (load_sample e s st) = True"
  by (simp add: load_sample_def Let_def)

lemma load_loop_app:
  assumes "\<forall>s \<in> set pre. \<exists>h. fs e (dir st @ s @ ''.pkl'') = Some (Histogram h)"
  shows "load_loop e (pre @ rest) st = load_loop e rest (load_loop e pre st) \<and>
         dir (load_loop e pre st) = dir st \<and> data (load_loop e pre st) = data st \<and>
         samples (load_loop e pre st) = samples st"
  using assms
proof (induction pre arbitrary: st)
  case Nil
  then show ?case by simp
next
  case (Cons s pre)
  obtain st' where st': "load_sample e s st = (True, st')"
    using Cons.prems load_sample_good [of e st s] by (cases "load_sample e s st") auto
  have fr: "dir st' = dir st \<and> data st' = data st \<and> samples st' = samples st"
    using load_sample_frame [OF st'] .
  have "\<forall>s \<in> set pre. \<exists>h. fs e (dir st' @ s @ ''.pkl'') = Some (Histogram h)"
    using Cons.prems fr by simp
  from Cons.IH [OF this] show ?case using st' fr by simp
qed

lemma store_inv_logging [simp]: "store_inv (logging_error m st) = store_inv st"
  by (simp add: store_inv_def logging_error_def)

lemma load_sample_inv:
  assumes "store_inv st" and "load_sample e s st = (b, st')"
  shows "store_inv st'"
proof (cases "fs e (dir st @ s @ ''.pkl'')")
  case None
  then have "st' = logging_error (NoFileNamed s) st"
    using assms(2) load_sample_fail(1) [of e st s] by simp
  then show ?thesis using assms(1) by simp
next
  case (Some obj)
  show ?thesis
  proof (cases obj)
    case OtherObj
    then have "st' = logging_error (NotHistObject s) st"
      using assms(2) Some load_sample_fail(2) [of e st s] by simp
    then show ?thesis using assms(1) by simp
  next
    case (Histogram h)
    show ?thesis
    proof (cases "py_in s (data st) \<or> data st = Str ''all''")
      case True
      then have st': "st' = st\<lparr>is_obj_bh := Some True,
          samples_dict := dict_set (samples_dict st) s h,
          data_dict := dict_set (data_dict st) s h,
          plot_types := dict_set (plot_types st) s ''data''\<rparr>"
        using assms(2) Some Histogram by (auto simp: load_sample_def Let_def)
      show ?thesis using assms(1) True unfolding st' store_inv_def
        by (auto simp: dict_set_keys dict_set_distinct)
    next
      case False
      then have st': "st' = st\<lparr>is_obj_bh := Some True,
          samples_dict := dict_set (samples_dict st) s h,
          histos_dict := dict_set (histos_dict st) s h,
          histos_list := histos_list st @ [h],
          plot_types := dict_set (plot_types st) s ''histo''\<rparr>"
        using assms(2) Some Histogram by (auto simp: load_sample_def Let_def)
      show ?thesis using assms(1) False unfolding st' store_inv_def
        by (auto simp: dict_set_keys dict_set_distinct)
    qed
  qed
qed

lemma load_loop_inv: "store_inv st \<Longrightarrow> store_inv (load_loop e ns st)"
proof (induction ns arbitrary: st)
  case Nil
  then show ?case by simp
next
  case (Cons s ns)
  obtain b st' where st': "load_sample e s st = (b, st')" by (cases "load_sample e s st")
  have inv': "store_inv st'" using load_sample_inv [OF Cons.prems st'] .
  show ?case using st' inv' Cons.IH [OF inv'] by (cases b) auto
qed

lemma dict_length_card: "distinct (map fst d) \<Longrightarrow> length d = card (fst ` set d)"
  using distinct_card [of "map fst d"] by simp

lemma store_inv_count:
  assumes "store_inv st"
  shows "length (histos_dict st) + length (data_dict st) = length (samples_dict st) \<and>
         fst ` set (histos_dict st) \<inter> fst ` set (data_dict st) = {}"
proof -
  have disj: "fst ` set (histos_dict st) \<inter> fst ` set (data_dict st) = {}"
    using assms unfolding store_inv_def by blast
  have "card (fst ` set (histos_dict st) \<union> fst ` set (data_dict st)) =
        card (fst ` set (histos_dict st)) + card (fst ` set (data_dict st))"
    using disj by (simp add: card_Un_disjoint)
  then show ?thesis
    using assms disj dict_length_card [of "histos_dict st"] dict_length_card [of "data_dict st"]
      dict_length_card [of "samples_dict st"]
    unfolding store_inv_def by simp
qed

lemma load_sample_good_keys:
  assumes "fs e (dir st @ s @ ''.pkl'') = Some (Histogram h)"
  shows "samples_dict (snd (load_sample e s st)) = dict_set (samples_dict st) s h"
  using assms by (simp add: load_sample_def Let_def)

lemma load_loop_good_keys:
  assumes "\<forall>s \<in> set ns. \<exists>h. fs e (dir st @ s @ ''.pkl'') = Some (Histogram h)"
    and "distinct ns" and "set ns \<inter> fst ` set (samples_dict st) = {}"
  shows "map fst (samples_dict (load_loop e ns st)) = map fst (samples_dict st) @ ns"
  using assms
proof (induction ns arbitrary: st)
  case Nil
  then show ?case by simp
next
  case (Cons s ns)
  obtain h where h: "fs e (dir st @ s @ ''.pkl'') = Some (Histogram h)"
    using Cons.prems(1) by auto
  obtain st' where st': "load_sample e s st = (True, st')"
    using load_sample_good [OF h] by (cases "load_sample e s st") auto
  have fr: "dir st' = dir st" using load_sample_frame [OF st'] by simp
  have sd: "samples_dict st' = samples_dict st @ [(s, h)]"
    using load_sample_good_keys [OF h] st' Cons.prems(3) by (simp add: dict_set_fresh)
  have 1: "\<forall>s \<in> set ns. \<exists>h. fs e (dir st' @ s @ ''.pkl'') = Some (Histogram h)"
    using Cons.prems(1) fr by simp
  have 2: "distinct ns" using Cons.prems(2) by simp
  have 3: "set ns \<inter> fst ` set (samples_dict st') = {}"
    using Cons.prems(2,3) sd by auto
  show ?case using Cons.IH [OF 1 2 3] st' sd by simp
qed

lemma type_checker_strs: "type_checker st (List (map PStr ns)) = (True, st)"
  by (simp add: list_all_iff)

lemma str_items_strs: "str_items (map PStr ns) = ns"
  by (induction ns) auto

lemma check_data_names_frame:
  "dir (check_data_names ns st) = dir st \<and> samples (check_data_names ns st) = samples st \<and>
   data (check_data_names ns st) = data st \<and>
   samples_dict (check_data_names ns st) = samples_dict st \<and>
   histos_dict (check_data_names ns st) = histos_dict st \<and>
   data_dict (check_data_names ns st) = data_dict st"
  by (induction ns arbitrary: st) (auto simp: logging_error_def)

lemma check_data_frame:
  "dir (check_data st) = dir st \<and> samples (check_data st) = samples st \<and>
   samples_dict (check_data st) = samples_dict st \<and>
   histos_dict (check_data st) = histos_dict st \<and>
   data_dict (check_data st) = data_dict st"
  by (cases "data st")
     (auto simp: check_data_def check_data_names_frame logging_error_def Let_def)

lemma assign_colors_loop_frame:
  "assign_colors_loop custom iks st = Inr st' \<Longrightarrow>
     samples_dict st' = samples_dict st \<and> histos_dict st' = histos_dict st \<and>
     data_dict st' = data_dict st"
proof (induction iks arbitrary: st)
  case Nil
  then show ?case by simp
next
  case (Cons ik iks)
  obtain i k where ik: "ik = (i, k)" by (cases ik)
  from Cons.prems obtain c where
    "assign_colors_loop custom iks (st\<lparr>colors_dict := dict_set (colors_dict st) k c\<rparr>) = Inr st'"
    unfolding ik by (simp split: sum.splits)
  from Cons.IH [OF this] show ?case by simp
qed

lemma store_labels_frame:
  "samples_dict (store_labels d st) = samples_dict st \<and>
   histos_dict (store_labels d st) = histos_dict st \<and>
   data_dict (store_labels d st) = data_dict st"
proof (induction d arbitrary: st)
  case Nil
  then show ?case by simp
next
  case (Cons p d)
  obtain k h where p: "p = (k, h)" by (cases p)
  show ?case unfolding p by (simp add: Let_def Cons.IH)
qed

lemma store_data_frame:
  "store_data st = Inr st' \<Longrightarrow>
     samples_dict st' = samples_dict st \<and> histos_dict st' = histos_dict st \<and>
     data_dict st' = data_dict st"
  by (auto simp: store_data_def store_labels_frame split: sum.splits)

lemma Hist1D_init_dicts:
  assumes "Hist1D_init e samples_arg data_arg errors_arg stack directory = Inr st"
  shows "samples_dict st = samples_dict (check_input e (init_attrs samples_arg data_arg errors_arg stack directory)) \<and>
         histos_dict st = histos_dict (check_input e (init_attrs samples_arg data_arg errors_arg stack directory)) \<and>
         data_dict st = data_dict (check_input e (init_attrs samples_arg data_arg errors_arg stack directory))"
proof -
  let ?c = "check_input e (init_attrs samples_arg data_arg errors_arg stack directory)"
  from assms obtain st1 where a: "assign_colors None ?c = Inr st1" and s: "store_data st1 = Inr st"
    by (auto simp: Hist1D_init_def Let_def split: sum.splits)
  show ?thesis
    using assign_colors_loop_frame [OF a [unfolded assign_colors_def]] store_data_frame [OF s]
    by simp
qed

lemma list_all_strs: "list_all is_str (map PStr ns)"
  by (induction ns) auto

lemma check_input_strs:
  assumes "samples st = List (map PStr ns)" and "ns \<noteq> []"
  shows "check_input e st =
         load_loop e ns ((check_data st)\<lparr>samples := List (map PStr ns)\<rparr>)"
  using assms check_data_frame [of st]
  by (simp add: check_input_def list_all_strs str_items_strs Let_def)

lemma store_inv_empty:
  "samples_dict st = [] \<Longrightarrow> histos_dict st = [] \<Longrightarrow> data_dict st = [] \<Longrightarrow> store_inv st"
  by (simp add: store_inv_def)

text \<open>
  C3, amended. For every store that the constructor builds from \<open>N\<close> distinct sample names
  whose files all hold a histogram, \<open>len(histos_dict) + len(data_dict) = len(samples_dict)
  = N\<close>: \<open>samples_dict\<close> holds every loaded sample under its name, in the order of the
  list, and the histogram role and the data role part its names, no name being in both.
\<close>

theorem store_roles_partition:
  assumes "Hist1D_init e (List (map PStr ns)) data_arg errors_arg stack directory = Inr st"
    and "distinct ns"
    and "\<forall>s \<in> set ns. \<exists>h. fs e (directory @ s @ ''.pkl'') = Some (Histogram h)"
  shows "length (histos_dict st) + length (data_dict st) = length (samples_dict st) \<and>
         length (samples_dict st) = length ns \<and>
         dict_keys (samples_dict st) = ns \<and>
         set (dict_keys (histos_dict st)) \<inter> set (dict_keys (data_dict st)) = {} \<and>
         set (dict_keys (histos_dict st)) \<union> set (dict_keys (data_dict st)) = set ns"
proof -
  let ?st0 = "init_attrs (List (map PStr ns)) data_arg errors_arg stack directory"
  let ?st1 = "(check_data ?st0)\<lparr>samples := List (map PStr ns)\<rparr>"
  let ?c = "check_input e ?st0"
  have ne: "ns \<noteq> []"
  proof
    assume "ns = []"
    then have "Hist1D_init e (List (map PStr ns)) data_arg errors_arg stack directory
               = Inl StopIteration"
      using Hist1D_init_no_samples(1) [of e data_arg errors_arg stack directory] by simp
    then show False using assms(1) by simp
  qed
  have c: "?c = load_loop e ns ?st1"
    by (rule check_input_strs) (simp_all add: init_attrs_def ne)
  have fr: "dir ?st1 = directory \<and> samples_dict ?st1 = [] \<and> histos_dict ?st1 = [] \<and>
            data_dict ?st1 = []"
    using check_data_frame [of ?st0] by (simp add: init_attrs_def)
  have inv: "store_inv ?c"
    unfolding c by (rule load_loop_inv, rule store_inv_empty) (simp_all add: fr)
  have keys: "map fst (samples_dict ?c) = ns"
    unfolding c using load_loop_good_keys [of ns e ?st1] assms(2,3) fr by simp
  have d: "samples_dict st = samples_dict ?c \<and> histos_dict st = histos_dict ?c \<and>
           data_dict st = data_dict ?c"
    using Hist1D_init_dicts [OF assms(1)] .
  have un: "fst ` set (histos_dict ?c) \<union> fst ` set (data_dict ?c) = fst ` set (samples_dict ?c)"
    using inv unfolding store_inv_def by blast
  have setkeys: "fst ` set (samples_dict ?c) = set ns"
    using keys by (metis list.set_map)
  have len: "length (samples_dict ?c) = length ns"
    using keys by (metis length_map)
  show ?thesis
    using store_inv_count [OF inv] keys d un setkeys len by (simp add: dict_keys_def)
qed

theorem store_roles_partition_witness:
  "distinct [''a'', ''b''] \<and>
   length (histos_dict two_plot) + length (data_dict two_plot) = length (samples_dict two_plot) \<and>
   length (samples_dict two_plot) = 2 \<and> dict_keys (samples_dict two_plot) = [''a'', ''b'']"
  using store_roles_partition [of two_env "[''a'', ''b'']" "List [PStr ''b'']" None False "[]" two_plot]
    two_plot_init
  by (simp add: two_env_def)

text \<open>
  C3, as the claim states it, fails: for the samples \<open>a\<close> and \<open>b\<close> with \<open>b\<close> named as data
  the store is built, \<open>samples_dict\<close> holds both samples and \<open>data_dict\<close> holds \<open>b\<close>, so
  that the two lengths add up to 3 for \<open>N = 2\<close>.
\<close>

theorem store_count_counterexample:
  "Hist1D_init two_env (List [PStr ''a'', PStr ''b'']) (List [PStr ''b'']) None False [] = Inr two_plot \<and>
   length (samples_dict two_plot) + length (data_dict two_plot) = 3"
  using two_plot_init by (simp add: two_plot_def)

text \<open>
  C8. When the files of the names before \<open>bad\<close> all hold a histogram and the file of
  \<open>bad\<close> is missing or unreadable, or holds an object that is no histogram, \<open>check_input\<close>
  ends in the state reached by loading the names before \<open>bad\<close>, with one error reported
  for \<open>bad\<close>: no name after \<open>bad\<close> is loaded, and the samples loaded before stay in the
  store.
\<close>

theorem load_aborts_batch:
  assumes "samples st = List (map PStr (pre @ bad # post))"
    and "\<forall>s \<in> set pre. \<exists>h. fs e (dir st @ s @ ''.pkl'') = Some (Histogram h)"
    and "fs e (dir st @ bad @ ''.pkl'') = None \<or> fs e (dir st @ bad @ ''.pkl'') = Some OtherObj"
  shows "check_input e st =
           logging_error
             (if fs e (dir st @ bad @ ''.pkl'') = None then NoFileNamed bad else NotHistObject bad)
             (load_loop e pre ((check_data st)\<lparr>samples := samples st\<rparr>)) \<and>
         (distinct pre \<and> samples_dict st = [] \<longrightarrow>
            dict_keys (samples_dict (check_input e st)) = pre)"
proof -
  let ?st1 = "(check_data st)\<lparr>samples := samples st\<rparr>"
  let ?mid = "load_loop e pre ?st1"
  have fr: "dir ?st1 = dir st \<and> samples_dict ?st1 = samples_dict st"
    using check_data_frame [of st] by simp
  have good: "\<forall>s \<in> set pre. \<exists>h. fs e (dir ?st1 @ s @ ''.pkl'') = Some (Histogram h)"
    using assms(2) fr by simp
  have c: "check_input e st = load_loop e (pre @ bad # post) ?st1"
    using check_input_strs [of st "pre @ bad # post" e] assms(1) by simp
  have app: "load_loop e (pre @ bad # post) ?st1 = load_loop e (bad # post) ?mid \<and>
             dir ?mid = dir ?st1"
    using load_loop_app [OF good, of "bad # post"] by simp
  have stop: "load_loop e (bad # post) ?mid =
           logging_error
             (if fs e (dir st @ bad @ ''.pkl'') = None then NoFileNamed bad else NotHistObject bad)
             ?mid"
    using assms(3) app fr load_sample_fail [of e ?mid bad] by auto
  have eq: "check_input e st =
           logging_error
             (if fs e (dir st @ bad @ ''.pkl'') = None then NoFileNamed bad else NotHistObject bad)
             ?mid"
    using c app stop by simp
  have keys: "dict_keys (samples_dict (check_input e st)) = pre"
    if "distinct pre \<and> samples_dict st = []"
    using that load_loop_good_keys [OF good, of ] fr
    unfolding eq by (simp add: logging_error_def dict_keys_def)
  show ?thesis using eq keys by blast
qed

theorem load_aborts_batch_witness:
  "samples (init_attrs (List [PStr ''a'', PStr ''c'', PStr ''b'']) (List []) None False []) =
     List (map PStr ([''a''] @ ''c'' # [''b''])) \<and>
   fs two_env ''a.pkl'' = Some (Histogram zero_bin_hist) \<and>
   fs two_env ''c.pkl'' = Some OtherObj \<and>
   dict_keys (samples_dict (check_input two_env
     (init_attrs (List [PStr ''a'', PStr ''c'', PStr ''b'']) (List []) None False []))) = [''a''] \<and>
   errlog (check_input two_env
     (init_attrs (List [PStr ''a'', PStr ''c'', PStr ''b'']) (List []) None False [])) =
     [NotHistObject ''c'']"
  using load_aborts_batch
    [of "init_attrs (List [PStr ''a'', PStr ''c'', PStr ''b'']) (List []) None False []"
        "[''a'']" "''c''" "[''b'']" two_env]
  by (simp add: init_attrs_def two_env_def check_input_def check_data_def load_sample_def
      logging_error_def dict_keys_def Let_def)

section \<open>Properties of the grid configuration\<close>

lemma parts_values:
  "spec_grid_parts ''x-'' = Some (''x'', ''-'')"
  "spec_grid_parts ''x--'' = Some (''x'', ''--'')"
  "spec_grid_parts ''x-.'' = Some (''x'', ''-.'')"
  "spec_grid_parts ''x:'' = Some (''x'', '':'')"
  "spec_grid_parts ''y-'' = Some (''y'', ''-'')"
  "spec_grid_parts ''y--'' = Some (''y'', ''--'')"
  "spec_grid_parts ''y-.'' = Some (''y'', ''-.'')"
  "spec_grid_parts ''y:'' = Some (''y'', '':'')"
  "spec_grid_parts ''both-'' = Some (''both'', ''-'')"
  "spec_grid_parts ''both--'' = Some (''both'', ''--'')"
  "spec_grid_parts ''both-.'' = Some (''both'', ''-.'')"
  "spec_grid_parts ''both:'' = Some (''both'', '':'')"
  by (simp_all add: spec_grid_parts_def spec_grid_strings_def)


lemma spec_grid_accepts_iff:
  "spec_grid_accepts s \<longleftrightarrow>
     s \<in> {''x-'', ''x--'', ''x-.'', ''x:'', ''y-'', ''y--'', ''y-.'', ''y:'',
           ''both-'', ''both--'', ''both-.'', ''both:''}"
proof
  assume "spec_grid_accepts s"
  then obtain a l where al: "(a, l) \<in> set spec_grid_strings" and s: "a @ l = s"
    unfolding spec_grid_accepts_def spec_grid_parts_def find_None_iff by auto
  from al have "(a, l) \<in> {(''x'', ''-''), (''x'', ''--''), (''x'', ''-.''), (''x'', '':''),
      (''y'', ''-''), (''y'', ''--''), (''y'', ''-.''), (''y'', '':''),
      (''both'', ''-''), (''both'', ''--''), (''both'', ''-.''), (''both'', '':'')}"
    by (simp add: spec_grid_strings_def)
  then show "s \<in> {''x-'', ''x--'', ''x-.'', ''x:'', ''y-'', ''y--'', ''y-.'', ''y:'',
           ''both-'', ''both--'', ''both-.'', ''both:''}"
    unfolding s [symmetric] by (elim insertE emptyE) simp_all
next
  assume "s \<in> {''x-'', ''x--'', ''x-.'', ''x:'', ''y-'', ''y--'', ''y-.'', ''y:'',
           ''both-'', ''both--'', ''both-.'', ''both:''}"
  then show "spec_grid_accepts s"
    unfolding spec_grid_accepts_def by (elim insertE emptyE) (simp_all add: parts_values)
qed

lemma code_accepts_spec:
  assumes "(c = CHR ''x'' \<or> c = CHR ''y'') \<and> rest \<in> set linestyles"
  shows "spec_grid_accepts (c # rest)"
  using assms unfolding spec_grid_accepts_iff linestyles_def by auto

lemma both_spec: "l \<in> set linestyles \<Longrightarrow> spec_grid_accepts (''both'' @ l)"
  unfolding spec_grid_accepts_iff linestyles_def by auto

lemma code_accepts_both_spec:
  assumes "take 4 s = ''both'' \<and> drop 4 s \<in> set linestyles"
  shows "spec_grid_accepts s"
proof -
  have "s = take 4 s @ drop 4 s" by simp
  then have s: "s = ''both'' @ drop 4 s" using assms by metis
  show ?thesis using both_spec [of "drop 4 s"] assms s by metis
qed

lemma converter_rejects:
  assumes "s \<noteq> []" and "\<not> spec_grid_accepts s"
  shows "gridstring_converter s st = Inr (logging_error InvalidGridString st)"
proof -
  obtain c rest where s: "s = c # rest" using assms(1) by (cases s) auto
  have 1: "\<not> ((c = CHR ''x'' \<or> c = CHR ''y'') \<and> rest \<in> set linestyles)"
    using assms(2) code_accepts_spec [of c rest] s by blast
  have 2: "\<not> (take 4 s = ''both'' \<and> drop 4 s \<in> set linestyles)"
    using assms(2) code_accepts_both_spec [of s] by blast
  show ?thesis
    using 1 2 unfolding gridstring_converter_def s by (simp only: list.case if_False)
qed

lemma converter_accepts_x:
  "gridstring_converter ''x-'' st = Inr (st\<lparr>gridaxis := Some ''x'', gridline := Some ''-''\<rparr>)"
  "gridstring_converter ''x--'' st = Inr (st\<lparr>gridaxis := Some ''x'', gridline := Some ''--''\<rparr>)"
  "gridstring_converter ''x-.'' st = Inr (st\<lparr>gridaxis := Some ''x'', gridline := Some ''-.''\<rparr>)"
  "gridstring_converter ''x:'' st = Inr (st\<lparr>gridaxis := Some ''x'', gridline := Some '':''\<rparr>)"
  by (simp_all add: gridstring_converter_def linestyles_def)

lemma converter_accepts_y:
  "gridstring_converter ''y-'' st = Inr (st\<lparr>gridaxis := Some ''y'', gridline := Some ''-''\<rparr>)"
  "gridstring_converter ''y--'' st = Inr (st\<lparr>gridaxis := Some ''y'', gridline := Some ''--''\<rparr>)"
  "gridstring_converter ''y-.'' st = Inr (st\<lparr>gridaxis := Some ''y'', gridline := Some ''-.''\<rparr>)"
  "gridstring_converter ''y:'' st = Inr (st\<lparr>gridaxis := Some ''y'', gridline := Some '':''\<rparr>)"
  by (simp_all add: gridstring_converter_def linestyles_def)

lemma converter_accepts_both:
  "gridstring_converter ''both-'' st = Inr (st\<lparr>gridaxis := Some ''both'', gridline := Some ''-''\<rparr>)"
  "gridstring_converter ''both--'' st = Inr (st\<lparr>gridaxis := Some ''both'', gridline := Some ''--''\<rparr>)"
  "gridstring_converter ''both-.'' st = Inr (st\<lparr>gridaxis := Some ''both'', gridline := Some ''-.''\<rparr>)"
  "gridstring_converter ''both:'' st = Inr (st\<lparr>gridaxis := Some ''both'', gridline := Some '':''\<rparr>)"
  by (simp_all add: gridstring_converter_def linestyles_def)


lemma spec_grid_parts_Some:
  assumes "spec_grid_parts s = Some (a, l)"
  shows "s = a @ l \<and> a \<in> {''x'', ''y'', ''both''} \<and> l \<in> set linestyles"
proof -
  have "(a, l) \<in> set spec_grid_strings \<and> a @ l = s"
    using assms unfolding spec_grid_parts_def find_Some_iff by (auto simp: in_set_conv_nth)
  then show ?thesis by (auto simp: spec_grid_strings_def linestyles_def)
qed

text \<open>
  C9, amended. On every string that is not empty the parser does what the specification
  says: a string formed by an axis out of x, y and both immediately followed by a line
  style out of -, --, -. and : sets the grid axis and the grid line style to these two
  parts; every other string is reported as an error and neither attribute is assigned.
  The strings y:, x-- and both-. are accepted, z: and x@ are rejected.
\<close>

theorem gridstring_converter_parses:
  "(s \<noteq> [] \<longrightarrow>
      gridstring_converter s st =
        (case spec_grid_parts s of
           Some (a, l) \<Rightarrow> Inr (st\<lparr>gridaxis := Some a, gridline := Some l\<rparr>)
         | None \<Rightarrow> Inr (logging_error InvalidGridString st))) \<and>
   (spec_grid_parts s = Some (a, l) \<longrightarrow>
      s = a @ l \<and> a \<in> {''x'', ''y'', ''both''} \<and> l \<in> set linestyles) \<and>
   gridaxis (logging_error InvalidGridString st) = gridaxis st \<and>
   gridline (logging_error InvalidGridString st) = gridline st \<and>
   spec_grid_accepts ''y:'' \<and> spec_grid_accepts ''x--'' \<and> spec_grid_accepts ''both-.'' \<and>
   \<not> spec_grid_accepts ''z:'' \<and> \<not> spec_grid_accepts ''x@''"
proof -
  have conv: "gridstring_converter s st =
        (case spec_grid_parts s of
           Some (a, l) \<Rightarrow> Inr (st\<lparr>gridaxis := Some a, gridline := Some l\<rparr>)
         | None \<Rightarrow> Inr (logging_error InvalidGridString st))" if ne: "s \<noteq> []"
  proof (cases "spec_grid_accepts s")
    case False
    then have "spec_grid_parts s = None"
      unfolding spec_grid_accepts_def by blast
    then show ?thesis using converter_rejects [OF ne False] by simp
  next
    case True
    then have "s \<in> {''x-'', ''x--'', ''x-.'', ''x:'', ''y-'', ''y--'', ''y-.'', ''y:'',
           ''both-'', ''both--'', ''both-.'', ''both:''}"
      by (simp only: spec_grid_accepts_iff)
    then show ?thesis
      by (elim insertE emptyE)
         (simp_all only: parts_values converter_accepts_x converter_accepts_y
            converter_accepts_both option.case prod.case)
  qed
  have parts: "s = a @ l \<and> a \<in> {''x'', ''y'', ''both''} \<and> l \<in> set linestyles"
    if "spec_grid_parts s = Some (a, l)"
    using spec_grid_parts_Some [OF that] .
  have ex: "spec_grid_accepts ''y:'' \<and> spec_grid_accepts ''x--'' \<and>
      spec_grid_accepts ''both-.'' \<and> \<not> spec_grid_accepts ''z:'' \<and> \<not> spec_grid_accepts ''x@''"
    by (simp add: spec_grid_accepts_iff)
  have fr: "gridaxis (logging_error InvalidGridString st) = gridaxis st \<and>
   gridline (logging_error InvalidGridString st) = gridline st"
    by (simp add: logging_error_def)
  show ?thesis using conv parts ex fr by blast
qed

theorem gridstring_converter_parses_witness:
  "''y:'' \<noteq> [] \<and> spec_grid_parts ''y:'' = Some (''y'', '':'') \<and>
   gridstring_converter ''y:'' zero_bin_plot =
     Inr (zero_bin_plot\<lparr>gridaxis := Some ''y'', gridline := Some '':''\<rparr>) \<and>
   ''y:'' = ''y'' @ '':'' \<and>
   spec_grid_parts ''z:'' = None \<and>
   gridstring_converter ''z:'' zero_bin_plot = Inr (logging_error InvalidGridString zero_bin_plot)"
  using gridstring_converter_parses [of "''y:''" zero_bin_plot "''y''" "'':''"]
    gridstring_converter_parses [of "''z:''" zero_bin_plot "''y''" "'':''"]
  by (simp add: spec_grid_parts_def spec_grid_strings_def)

text \<open>
  C9, as the claim states it, fails at the empty string: it is none of the accepted
  strings, and the parser reports no error for it but raises \<open>IndexError\<close> at
  \<open>string[0]\<close>.
\<close>

theorem gridstring_converter_empty_raises:
  "\<not> spec_grid_accepts [] \<and> gridstring_converter [] zero_bin_plot = Inl IndexError"
  by (simp add: spec_grid_accepts_iff gridstring_converter_def)

lemma assign_colors_loop_grid:
  "assign_colors_loop custom iks st = Inr st' \<Longrightarrow>
     need_grid st' = need_grid st \<and> gridaxis st' = gridaxis st \<and>
     gridline st' = gridline st \<and> errlog st' = errlog st"
proof (induction iks arbitrary: st)
  case Nil
  then show ?case by simp
next
  case (Cons ik iks)
  obtain i k where ik: "ik = (i, k)" by (cases ik)
  from Cons.prems obtain c where
    "assign_colors_loop custom iks (st\<lparr>colors_dict := dict_set (colors_dict st) k c\<rparr>) = Inr st'"
    unfolding ik by (simp split: sum.splits)
  from Cons.IH [OF this] show ?case by simp
qed


lemma plot_options_rejected_grid:
  assumes "gridstring \<noteq> []" and "\<not> spec_grid_accepts gridstring"
  shows "(plot_options e shape_arg gridstring marker markersize legendcols rcp_kw st = Inr st' \<longrightarrow>
            need_grid st' \<and> gridaxis st' = gridaxis st \<and> gridline st' = gridline st \<and>
            InvalidGridString \<in> set (errlog st')) \<and>
         (\<not> (is_stack st \<and> shape_arg = Some ''hollow'' \<and> py_len (samples st) \<le> 10) \<longrightarrow>
            (\<exists>st'. plot_options e shape_arg gridstring marker markersize legendcols rcp_kw st
                     = Inr st'))"
proof -
  define st1 where "st1 =
        (if shape_arg \<noteq> None \<and> shape_arg \<noteq> Some [] then
           (if shape_arg = Some ''full'' \<and> \<not> is_stack st \<and> 1 < length (histos_dict st)
            then logging_error FullShapeNotStack st
            else if shape_arg = Some ''full'' \<or> shape_arg = Some ''hollow''
            then st\<lparr>shape := the shape_arg\<rparr>
            else logging_error ShapeInvalid st)
         else st)"
  have st1: "gridaxis st1 = gridaxis st \<and> gridline st1 = gridline st \<and>
             is_stack st1 = is_stack st \<and> samples st1 = samples st"
    by (simp add: st1_def logging_error_def)
  define st2 where "st2 = (logging_error InvalidGridString st1)\<lparr>need_grid := True\<rparr>"
  have conv: "gridstring_converter gridstring st1 = Inr (logging_error InvalidGridString st1)"
    using converter_rejects [OF assms(1,2)] .
  define st6 where "st6 =
     (let st3 = st2\<lparr>rcps := dict_update (rcps st2)
                                      (filter (\<lambda>(k, v). k \<in> rc_keys e) rcp_kw)\<rparr>;
                  st4 = (if marker \<noteq> None \<and> marker \<noteq> Some []
                            \<and> the marker \<in> marker_keys e
                         then st3\<lparr>rcps := dict_set (rcps st3) ''lines.marker''
                                            (RcStr (the marker))\<rparr>
                         else st3);
                  st5 = (if markersize \<noteq> None \<and> markersize \<noteq> Some 0
                         then st4\<lparr>rcps := dict_set (rcps st4) ''lines.markersize''
                                            (RcNum (the markersize))\<rparr>
                         else st4)
      in (if legendcols \<noteq> None \<and> legendcols \<noteq> Some 0
                         then st5\<lparr>legend_ncols := the legendcols\<rparr>
                         else st5))"
  have st6: "need_grid st6 \<and> gridaxis st6 = gridaxis st \<and> gridline st6 = gridline st \<and>
             errlog st6 = errlog st1 @ [InvalidGridString] \<and> is_stack st6 = is_stack st \<and>
             samples st6 = samples st"
    using st1 by (simp add: st6_def st2_def logging_error_def Let_def)
  have po: "plot_options e shape_arg gridstring marker markersize legendcols rcp_kw st =
            (if is_stack st6 \<and> shape_arg = Some ''hollow'' \<and> py_len (samples st6) \<le> 10
             then assign_colors (Some (map Named (color_order st6))) st6
             else Inr st6)"
    using assms(1) conv
    unfolding plot_options_def st1_def [symmetric]
    by (simp add: st6_def st2_def Let_def)
  have good: "need_grid s' \<and> gridaxis s' = gridaxis st \<and> gridline s' = gridline st \<and>
            InvalidGridString \<in> set (errlog s')"
    if "plot_options e shape_arg gridstring marker markersize legendcols rcp_kw st = Inr s'"
    for s'
  proof -
    have fr: "need_grid s' = need_grid st6 \<and> gridaxis s' = gridaxis st6 \<and>
              gridline s' = gridline st6 \<and> errlog s' = errlog st6"
    proof (cases "is_stack st6 \<and> shape_arg = Some ''hollow'' \<and> py_len (samples st6) \<le> 10")
      case True
      then have "assign_colors (Some (map Named (color_order st6))) st6 = Inr s'"
        using that po by simp
      then show ?thesis
        using assign_colors_loop_grid unfolding assign_colors_def by blast
    next
      case False
      then have "s' = st6" using that po by (auto split: if_splits)
      then show ?thesis by simp
    qed
    show ?thesis using fr st6 by simp
  qed
  have ret: "\<exists>s'. plot_options e shape_arg gridstring marker markersize legendcols rcp_kw st = Inr s'"
    if "\<not> (is_stack st \<and> shape_arg = Some ''hollow'' \<and> py_len (samples st) \<le> 10)"
    using that po st6 by (auto split: if_splits)
  show ?thesis using good ret by blast
qed



text \<open>
  When an earlier call has assigned the two attributes, a later rejected grid string
  leaves them as they are, and the renderers draw the grid of the earlier call.
\<close>

lemma rejected_grid_keeps_earlier:
  assumes "gridstring \<noteq> []" and "\<not> spec_grid_accepts gridstring"
    and "gridaxis st = Some a" and "gridline st = Some l"
    and "plot_options e shape_arg gridstring marker markersize legendcols rcp_kw st = Inr st'"
  shows "draw_grid st' = Inr (Some (a, l))"
  using plot_options_rejected_grid [OF assms(1,2), of e shape_arg marker markersize legendcols
      rcp_kw st st'] assms(3,4,5)
  by (simp add: draw_grid_def)


section \<open>Properties of the tick labels\<close>

lemma digit_cases: "d < 10 \<Longrightarrow> d \<in> {0, 1, 2, 3, 4, 5, 6, 7, 8, 9::nat}"
  by auto

lemma digit_char_not_point: "d < 10 \<Longrightarrow> digit_char d \<noteq> CHR ''.''"
  by (drule digit_cases) (elim insertE emptyE; simp add: digit_char_def)

lemma digit_char_zero: "d < 10 \<Longrightarrow> digit_char d = CHR ''0'' \<longleftrightarrow> d = 0"
  by (drule digit_cases) (elim insertE emptyE; simp add: digit_char_def)

lemma str_nat_no_point: "CHR ''.'' \<notin> set (str_nat n)"
proof (induction n rule: str_nat.induct)
  case (1 n)
  show ?case
  proof (cases "n < 10")
    case True
    then show ?thesis using digit_char_not_point [of n] by (subst str_nat.simps) simp
  next
    case False
    have "n mod 10 < 10" by simp
    then show ?thesis
      using False 1 digit_char_not_point [of "n mod 10"] by (subst str_nat.simps) simp
  qed
qed

lemma py_split_none: "c \<notin> set w \<Longrightarrow> py_split c w = [w]"
  by (induction w) auto

lemma py_split_first: "c \<notin> set w \<Longrightarrow> py_split c (w @ c # r) = w # py_split c r"
  by (induction w) auto

lemma digits_n_2: "digits_n 2 m = [digit_char ((m div 10) mod 10), digit_char (m mod 10)]"
  by (simp add: numeral_2_eq_2)

lemma mod_100_div_10: "(q::nat) mod 100 div 10 = q div 10 mod 10"
proof -
  have "q mod (10 * 10) = 10 * (q div 10 mod 10) + q mod 10" by (rule mod_mult2_eq)
  then show ?thesis by simp
qed

lemma format_f_2:
  "format_f 2 x =
     ((if x < 0 then ''-'' else []) @ str_nat (hundredths x div 100)) @ CHR ''.'' #
     [digit_char (spec_decimal1 x), digit_char (spec_decimal2 x)]"
  by (simp add: format_f_def hundredths_def spec_decimal1_def spec_decimal2_def digits_n_2
      Let_def mod_mod_cancel mod_100_div_10)


lemma split_format_f_2:
  "py_split (CHR ''.'') (format_f 2 x) =
     [(if x < 0 then ''-'' else []) @ str_nat (hundredths x div 100),
      [digit_char (spec_decimal1 x), digit_char (spec_decimal2 x)]]"
proof -
  have d1: "digit_char (spec_decimal1 x) \<noteq> CHR ''.''"
    by (rule digit_char_not_point) (simp add: spec_decimal1_def)
  have d2: "digit_char (spec_decimal2 x) \<noteq> CHR ''.''"
    by (rule digit_char_not_point) (simp add: spec_decimal2_def)
  have w: "CHR ''.'' \<notin> set ((if x < 0 then ''-'' else []) @ str_nat (hundredths x div 100))"
    using str_nat_no_point [of "hundredths x div 100"] by simp
  have r: "py_split (CHR ''.'') [digit_char (spec_decimal1 x), digit_char (spec_decimal2 x)] =
           [[digit_char (spec_decimal1 x), digit_char (spec_decimal2 x)]]"
    by (rule py_split_none) (use d1 d2 in auto)
  show ?thesis
    unfolding format_f_2 py_split_first [OF w] r ..
qed

lemma need_loop_step:
  "need_loop (format_f 2 x # rest) need1 =
     (if spec_decimal2 x \<noteq> 0 then Inr (need1, True)
      else if spec_decimal1 x \<noteq> 0 then need_loop rest True
      else need_loop rest need1)"
proof -
  have z1: "digit_char (spec_decimal1 x) = CHR ''0'' \<longleftrightarrow> spec_decimal1 x = 0"
    by (rule digit_char_zero) (simp add: spec_decimal1_def)
  have z2: "digit_char (spec_decimal2 x) = CHR ''0'' \<longleftrightarrow> spec_decimal2 x = 0"
    by (rule digit_char_zero) (simp add: spec_decimal2_def)
  show ?thesis
    by (simp only: need_loop.simps split_format_f_2 list.case z1 z2)
qed

lemma need_loop_spec:
  "need_loop (map (format_f 2) xs) need1 =
     Inr (if list_ex (\<lambda>x. spec_decimal2 x \<noteq> 0) xs
          then (need1 \<or> list_ex (\<lambda>x. spec_decimal1 x \<noteq> 0)
                           (takeWhile (\<lambda>x. spec_decimal2 x = 0) xs), True)
          else (need1 \<or> list_ex (\<lambda>x. spec_decimal1 x \<noteq> 0) xs, False))"
proof (induction xs arbitrary: need1)
  case Nil
  then show ?case by simp
next
  case (Cons x xs)
  show ?case
    by (simp only: list.map need_loop_step Cons.IH) auto
qed

lemma butlast_tl_map: "butlast (tl (map f xs)) = map f (butlast (tl xs))"
  by (simp add: map_butlast map_tl)

text \<open>
  C7. For every tick set, the labels are the ticks formatted with one precision for all:
  2 decimals if a tick other than the first and the last has a non-zero 2nd decimal
  digit when formatted to 2 decimals, else 1 decimal if such a tick has a non-zero 1st
  decimal digit, else none; and the first and the last label are blanked unless the
  edge labels are requested. This holds for the labels of every tick set that
  \<open>custom_yaxis\<close> generates from limits and a step. The ticks [1.0, 1.05, 2.0] get
  2-decimal labels, [1.0, 1.5, 2.0] get 1-decimal labels and [1.0, 2.0, 3.0] get integer
  labels. (With no tick at all and no edge labels requested the method raises
  \<open>IndexError\<close>.)
\<close>

theorem tick_labels_precision:
  "(ticks \<noteq> [] \<or> show_edges \<longrightarrow>
      tick_labels ticks show_edges =
        Inr (if show_edges then map (format_f (spec_precision ticks)) ticks
             else spec_blank_edges (map (format_f (spec_precision ticks)) ticks))) \<and>
   (custom_yaxis ylims_arg step show_edges = Inr ax \<longrightarrow>
      ybotlabels ax =
        (if show_edges then map (format_f (spec_precision (ybotrange ax))) (ybotrange ax)
         else spec_blank_edges (map (format_f (spec_precision (ybotrange ax))) (ybotrange ax)))) \<and>
   tick_labels [] False = Inl IndexError \<and>
   tick_labels [1, 21 / 20, 2] True = Inr [''1.00'', ''1.05'', ''2.00''] \<and>
   tick_labels [1, 3 / 2, 2] True = Inr [''1.0'', ''1.5'', ''2.0''] \<and>
   tick_labels [1, 2, 3] True = Inr [''1'', ''2'', ''3''] \<and>
   tick_labels [1, 21 / 20, 2] False = Inr [[], ''1.05'', []]"
proof -
  have gen: "tick_labels ticks show_edges =
        Inr (if show_edges then map (format_f (spec_precision ticks)) ticks
             else spec_blank_edges (map (format_f (spec_precision ticks)) ticks))"
    if "ticks \<noteq> [] \<or> show_edges"
    using that
    by (auto simp: tick_labels_def butlast_tl_map need_loop_spec spec_precision_def
        spec_blank_edges_def Let_def)
  have gen': "tick_labels rng show_edges = Inr lbls \<Longrightarrow>
        lbls = (if show_edges then map (format_f (spec_precision rng)) rng
             else spec_blank_edges (map (format_f (spec_precision rng)) rng))" for rng lbls
    by (cases "rng \<noteq> [] \<or> show_edges")
       (auto simp: tick_labels_def butlast_tl_map need_loop_spec spec_precision_def
        spec_blank_edges_def Let_def)
  have cy: "ybotlabels ax =
        (if show_edges then map (format_f (spec_precision (ybotrange ax))) (ybotrange ax)
         else spec_blank_edges (map (format_f (spec_precision (ybotrange ax))) (ybotrange ax)))"
    if "custom_yaxis ylims_arg step show_edges = Inr ax"
  proof -
    from that obtain rng lbls where t: "tick_labels rng show_edges = Inr lbls"
      and ax: "ybotrange ax = rng \<and> ybotlabels ax = lbls"
      by (auto simp: custom_yaxis_def split: list.splits option.splits sum.splits)
    show ?thesis using gen' [OF t] ax by simp
  qed
  have e0: "tick_labels [] False = Inl IndexError"
    by (simp add: tick_labels_def)
  have e1: "tick_labels [1, 21 / 20, 2] True = Inr [''1.00'', ''1.05'', ''2.00'']"
    by code_simp
  have e2: "tick_labels [1, 3 / 2, 2] True = Inr [''1.0'', ''1.5'', ''2.0'']"
    by code_simp
  have e3: "tick_labels [1, 2, 3] True = Inr [''1'', ''2'', ''3'']"
    by code_simp
  have e4: "tick_labels [1, 21 / 20, 2] False = Inr [[], ''1.05'', []]"
    by code_simp
  show ?thesis using gen cy e0 e1 e2 e3 e4 by blast
qed

theorem tick_labels_precision_witness:
  "[1, 3 / 2, 2] \<noteq> ([] :: rat list) \<and> spec_precision [1, 3 / 2, 2] = 1 \<and>
   tick_labels [1, 3 / 2, 2] False =
     Inr (spec_blank_edges (map (format_f 1) [1, 3 / 2, 2])) \<and>
   custom_yaxis [1, 2] (Some (1 / 2)) False =
     Inr \<lparr> custom_ylims = True, ylims = [1, 2], ystep = 1 / 2,
           ybotrange = [1, 3 / 2, 2], ybotlabels = [[], ''1.5'', []] \<rparr> \<and>
   [[], ''1.5'', []] = spec_blank_edges (map (format_f 1) [1, 3 / 2, 2])"
proof -
  have p: "spec_precision [1, 3 / 2, 2] = 1" by code_simp
  have c: "custom_yaxis [1, 2] (Some (1 / 2)) False =
     Inr \<lparr> custom_ylims = True, ylims = [1, 2], ystep = 1 / 2,
           ybotrange = [1, 3 / 2, 2], ybotlabels = [[], ''1.5'', []] \<rparr>"
    by code_simp
  show ?thesis
    using tick_labels_precision [of "[1, 3 / 2, 2]" False "[1, 2]" "Some (1 / 2)"
        "\<lparr> custom_ylims = True, ylims = [1, 2], ystep = 1 / 2,
           ybotrange = [1, 3 / 2, 2], ybotlabels = [[], ''1.5'', []] \<rparr>"] p c
    by simp
qed

end
